theory Spec2Isabelle
  imports Complex_Main
begin

section \<open>The optimisation models built by the notebooks\<close>

text \<open>
  The repository holds two notebooks, each in an English and a zh-tw edition with the same
  code cells. A notebook creates a model, declares its decision variables
  (\<^verbatim>\<open>model.addVar\<close>), sets a linear objective (\<^verbatim>\<open>model.setObjective\<close>), adds linear
  constraints (\<^verbatim>\<open>model.addConstr\<close>), calls the solver (\<^verbatim>\<open>model.optimize\<close>) and prints
  what the solver found. The solver is a third-party library; only the calls are code of
  the repository.

  The model below is the data those calls hand over, cell by cell. Python's floats are
  read as the decimal numbers the source writes (\<open>0.3\<close> is three tenths): the theory is
  about the exact problem, not about rounding or the solver's tolerances.
\<close>

subsection \<open>Variables, expressions, constraints\<close>

text \<open>The \<^verbatim>\<open>vtype\<close> argument of \<^verbatim>\<open>addVar\<close>; the notebooks pass \<^verbatim>\<open>GRB.CONTINUOUS\<close> and
  \<^verbatim>\<open>GRB.BINARY\<close>.\<close>

datatype vtype = CONTINUOUS | BINARY

text \<open>A declared variable. \<open>ub = None\<close> is the call's default, no upper bound.\<close>

record var =
  vname :: string
  vtype :: vtype
  lb :: real
  ub :: "real option"

text \<open>The two shapes of \<^verbatim>\<open>addVar\<close> call in the source:
  \<^verbatim>\<open>addVar(name=n, vtype=GRB.CONTINUOUS, lb=0)\<close> and \<^verbatim>\<open>addVar(name=n, vtype=GRB.BINARY)\<close>
  (lower bound defaulted to 0).\<close>

definition continuous_var :: "string \<Rightarrow> real \<Rightarrow> var" where
  "continuous_var n l = \<lparr>vname = n, vtype = CONTINUOUS, lb = l, ub = None\<rparr>"

definition binary_var :: "string \<Rightarrow> var" where
  "binary_var n = \<lparr>vname = n, vtype = BINARY, lb = 0, ub = None\<rparr>"

text \<open>A linear expression as the source's arithmetic writes it: \<^verbatim>\<open>3 * x1 + 5 * x2\<close> is
  \<open>Add (Scale 3 (Var ''x1'')) (Scale 5 (Var ''x2''))\<close>.\<close>

datatype linexpr =
    Var string
  | Const real
  | Scale real linexpr
  | Add linexpr linexpr

text \<open>The comparison of a constraint: \<^verbatim>\<open><=\<close>, \<^verbatim>\<open>==\<close>, \<^verbatim>\<open>>=\<close>.\<close>

datatype sense = LE | EQ | GE

record constr =
  lhs :: linexpr
  rel :: sense
  rhs :: linexpr
  cname :: string

text \<open>The second argument of \<^verbatim>\<open>setObjective\<close>.\<close>

datatype direction = MINIMIZE | MAXIMIZE

record model =
  mname :: string
  vars :: "var list"
  objective :: linexpr
  modelSense :: direction
  constrs :: "constr list"

subsection \<open>The Wyndor Glass Co. notebook\<close>

text \<open>
  \<^verbatim>\<open>
  model = gp.Model('Wyndor_Glass_Co')
  x1 = model.addVar(name='x1', vtype=GRB.CONTINUOUS, lb=0)
  x2 = model.addVar(name='x2', vtype=GRB.CONTINUOUS, lb=0)
  model.setObjective(3 * x1 + 5 * x2, GRB.MAXIMIZE)
  model.addConstr(x1 <= 4, name='Plant1_Capacity')
  model.addConstr(2 * x2 <= 12, name='Plant2_Capacity')
  model.addConstr(3 * x1 + 2 * x2 <= 18, name='Plant3_Capacity')
  \<close>
\<close>

definition wyndor :: model where
  "wyndor =
     \<lparr>mname = ''Wyndor_Glass_Co'',
      vars = [continuous_var ''x1'' 0, continuous_var ''x2'' 0],
      objective = Add (Scale 3 (Var ''x1'')) (Scale 5 (Var ''x2'')),
      modelSense = MAXIMIZE,
      constrs =
        [\<lparr>lhs = Var ''x1'', rel = LE, rhs = Const 4, cname = ''Plant1_Capacity''\<rparr>,
         \<lparr>lhs = Scale 2 (Var ''x2''), rel = LE, rhs = Const 12,
          cname = ''Plant2_Capacity''\<rparr>,
         \<lparr>lhs = Add (Scale 3 (Var ''x1'')) (Scale 2 (Var ''x2'')), rel = LE,
          rhs = Const 18, cname = ''Plant3_Capacity''\<rparr>]\<rparr>"

subsection \<open>The Radiation Therapy notebook\<close>

text \<open>
  \<^verbatim>\<open>
  model = gp.Model('Radiation_Therapy_Optimization')
  x1 = model.addVar(name='x1', vtype=GRB.CONTINUOUS, lb=0)
  x2 = model.addVar(name='x2', vtype=GRB.CONTINUOUS, lb=0)
  y1 = model.addVar(name='y1', vtype=GRB.BINARY)
  y2 = model.addVar(name='y2', vtype=GRB.BINARY)
  model.setObjective(0.4 * x1 + 0.5 * x2, GRB.MINIMIZE)
  model.addConstr(0.3 * x1 + 0.1 * x2 <= 2.7, name='Constraint1')
  model.addConstr(0.5 * x1 + 0.5 * x2 == 6, name='Constraint2')
  model.addConstr(0.6 * x1 + 0.4 * x2 >= 6, name='Constraint3')
  M = 10  # Large constant
  model.addConstr(x1 <= M * y1, name='Linking_x1_y1')
  model.addConstr(x2 <= M * y2, name='Linking_x2_y2')
  \<close>
\<close>

definition M :: real where
  "M = 10"

definition radiation :: model where
  "radiation =
     \<lparr>mname = ''Radiation_Therapy_Optimization'',
      vars = [continuous_var ''x1'' 0, continuous_var ''x2'' 0,
              binary_var ''y1'', binary_var ''y2''],
      objective = Add (Scale 0.4 (Var ''x1'')) (Scale 0.5 (Var ''x2'')),
      modelSense = MINIMIZE,
      constrs =
        [\<lparr>lhs = Add (Scale 0.3 (Var ''x1'')) (Scale 0.1 (Var ''x2'')), rel = LE,
          rhs = Const 2.7, cname = ''Constraint1''\<rparr>,
         \<lparr>lhs = Add (Scale 0.5 (Var ''x1'')) (Scale 0.5 (Var ''x2'')), rel = EQ,
          rhs = Const 6, cname = ''Constraint2''\<rparr>,
         \<lparr>lhs = Add (Scale 0.6 (Var ''x1'')) (Scale 0.4 (Var ''x2'')), rel = GE,
          rhs = Const 6, cname = ''Constraint3''\<rparr>,
         \<lparr>lhs = Var ''x1'', rel = LE, rhs = Scale M (Var ''y1''),
          cname = ''Linking_x1_y1''\<rparr>,
         \<lparr>lhs = Var ''x2'', rel = LE, rhs = Scale M (Var ''y2''),
          cname = ''Linking_x2_y2''\<rparr>]\<rparr>"

text \<open>The same problem with the two linking constraints taken out and only the
  continuous variables kept: the problem the markdown cell at the top of the notebook
  states, and the one whose feasible range the constant \<open>M\<close> has to cover.\<close>

definition is_linking :: "constr \<Rightarrow> bool" where
  "is_linking c = (cname c = ''Linking_x1_y1'' \<or> cname c = ''Linking_x2_y2'')"

definition radiation_unlinked :: model where
  "radiation_unlinked =
     radiation
       \<lparr>vars := filter (\<lambda>v. vtype v = CONTINUOUS) (vars radiation),
        constrs := filter (\<lambda>c. \<not> is_linking c) (constrs radiation)\<rparr>"

section \<open>What a model means\<close>

text \<open>An assignment gives every variable name a value.\<close>

type_synonym assignment = "string \<Rightarrow> real"

fun eval :: "linexpr \<Rightarrow> assignment \<Rightarrow> real" where
  "eval (Var n) a = a n"
| "eval (Const c) a = c"
| "eval (Scale k e) a = k * eval e a"
| "eval (Add e f) a = eval e a + eval f a"

definition holds :: "sense \<Rightarrow> real \<Rightarrow> real \<Rightarrow> bool" where
  "holds s l r = (case s of LE \<Rightarrow> l \<le> r | EQ \<Rightarrow> l = r | GE \<Rightarrow> l \<ge> r)"

definition satisfies :: "assignment \<Rightarrow> constr \<Rightarrow> bool" where
  "satisfies a c = holds (rel c) (eval (lhs c) a) (eval (rhs c) a)"

text \<open>A variable's own restrictions: its bounds, and for a binary one the two values
  0 and 1.\<close>

definition in_domain :: "assignment \<Rightarrow> var \<Rightarrow> bool" where
  "in_domain a v =
     (lb v \<le> a (vname v) \<and>
      (case ub v of None \<Rightarrow> True | Some u \<Rightarrow> a (vname v) \<le> u) \<and>
      (case vtype v of
         CONTINUOUS \<Rightarrow> True
       | BINARY \<Rightarrow> a (vname v) = 0 \<or> a (vname v) = 1))"

definition feasible :: "model \<Rightarrow> assignment \<Rightarrow> bool" where
  "feasible m a = (list_all (in_domain a) (vars m) \<and> list_all (satisfies a) (constrs m))"

definition objective_value :: "model \<Rightarrow> assignment \<Rightarrow> real" where
  "objective_value m a = eval (objective m) a"

text \<open>\<open>no_worse d v w\<close>: under direction \<open>d\<close>, objective value \<open>v\<close> is at least as good
  as \<open>w\<close>.\<close>

definition no_worse :: "direction \<Rightarrow> real \<Rightarrow> real \<Rightarrow> bool" where
  "no_worse d v w = (case d of MAXIMIZE \<Rightarrow> w \<le> v | MINIMIZE \<Rightarrow> v \<le> w)"

definition optimal :: "model \<Rightarrow> assignment \<Rightarrow> bool" where
  "optimal m a =
     (feasible m a \<and>
      (\<forall>b. feasible m b \<longrightarrow>
         no_worse (modelSense m) (objective_value m a) (objective_value m b)))"

section \<open>Solving and reporting\<close>

subsection \<open>The solver's answer\<close>

text \<open>Modelled from the spec: the status of a SolveResult (section 3 of the spec:
  optimal, infeasible, unbounded, or error). The source only reads \<^verbatim>\<open>model.status\<close> and
  compares it with \<^verbatim>\<open>GRB.OPTIMAL\<close>; the library's table of status codes is not part of
  the repository.\<close>

datatype status = OPTIMAL | INFEASIBLE | UNBOUNDED | ERROR

text \<open>What the notebooks read after \<^verbatim>\<open>model.optimize()\<close>: \<^verbatim>\<open>model.status\<close>, the
  attribute \<^verbatim>\<open>.x\<close> of each variable and \<^verbatim>\<open>model.objVal\<close>. The two attributes exist only
  when the solver holds a solution, hence the options.\<close>

record result =
  status :: status
  x_attr :: "string \<rightharpoonup> real"
  objVal :: "real option"

definition assignment_of :: "result \<Rightarrow> assignment" where
  "assignment_of r n = (case x_attr r n of Some v \<Rightarrow> v | None \<Rightarrow> 0)"

text \<open>The objective can be improved without bound: whatever value \<open>B\<close>, some feasible
  point is strictly better.\<close>

definition unbounded :: "model \<Rightarrow> bool" where
  "unbounded m =
     (\<forall>B. \<exists>b. feasible m b \<and> \<not> no_worse (modelSense m) B (objective_value m b))"

text \<open>Modelled from the spec: \<open>solve\<close> (sections 4.1 and 6, and the glossary's
  "Feasible / Optimal / Infeasible / Unbounded"). The solver behind \<^verbatim>\<open>model.optimize()\<close>
  is a third-party library and no code of it is in the repository, so it is not a
  function here: \<open>solves m r\<close> says that \<open>r\<close> is a right answer for \<open>m\<close> in exact
  arithmetic. An optimal answer gives every declared variable a value, the values are a
  best feasible point, and the objective value is the objective at that point; an
  infeasible answer is right when no point is feasible, an unbounded one when the
  objective has no bound; an error is never a right answer.\<close>

definition solves :: "model \<Rightarrow> result \<Rightarrow> bool" where
  "solves m r =
     (case status r of
        OPTIMAL \<Rightarrow>
          dom (x_attr r) = set (map vname (vars m)) \<and>
          optimal m (assignment_of r) \<and>
          objVal r = Some (objective_value m (assignment_of r))
      | INFEASIBLE \<Rightarrow> (\<forall>a. \<not> feasible m a) \<and> x_attr r = Map.empty \<and> objVal r = None
      | UNBOUNDED \<Rightarrow> unbounded m \<and> x_attr r = Map.empty \<and> objVal r = None
      | ERROR \<Rightarrow> False)"

text \<open>The answers the two notebooks recorded in their output cells.\<close>

definition wyndor_result :: result where
  "wyndor_result =
     \<lparr>status = OPTIMAL, x_attr = [''x1'' \<mapsto> 2, ''x2'' \<mapsto> 6], objVal = Some 36\<rparr>"

definition radiation_result :: result where
  "radiation_result =
     \<lparr>status = OPTIMAL,
      x_attr = [''x1'' \<mapsto> 7.5, ''x2'' \<mapsto> 4.5, ''y1'' \<mapsto> 1, ''y2'' \<mapsto> 1],
      objVal = Some 5.25\<rparr>"

subsection \<open>The reporting cells\<close>

text \<open>
  A printed line is a fixed text, or a label followed by a number. How Python formats the
  float is not modelled: the line keeps the number.

  A cell is a sequence of \<^verbatim>\<open>print\<close> statements. One that formats \<^verbatim>\<open>{x1.x}\<close> or
  \<^verbatim>\<open>{model.objVal}\<close> reads an attribute; when the solver holds no solution the read
  raises, and the cell stops with what it had printed so far. The zh-tw edition of the
  Wyndor notebook prints the same lines with translated labels.
\<close>

datatype line = Text string | Valued string real

datatype error = AttributeError

datatype stmt = Print string | PrintAttr string "real option"

fun run :: "stmt list \<Rightarrow> line list \<Rightarrow> line list \<times> error option" where
  "run [] out = (out, None)"
| "run (Print s # ss) out = run ss (out @ [Text s])"
| "run (PrintAttr s None # ss) out = (out, Some AttributeError)"
| "run (PrintAttr s (Some v) # ss) out = run ss (out @ [Valued s v])"

text \<open>
  \<^verbatim>\<open>
  if model.status == GRB.OPTIMAL:
      print("Optimal solution found:")
      print(f"  x1 (Product 1 batches per week) = {x1.x}")
      print(f"  x2 (Product 2 batches per week) = {x2.x}")
      print(f"  Maximum Profit (in thousands of dollars) = {model.objVal}")
  else:
      print("No optimal solution found.")
  \<close>
\<close>

definition report_wyndor :: "result \<Rightarrow> line list \<times> error option" where
  "report_wyndor r =
     (if status r = OPTIMAL then
        run [Print ''Optimal solution found:'',
             PrintAttr ''  x1 (Product 1 batches per week) = '' (x_attr r ''x1''),
             PrintAttr ''  x2 (Product 2 batches per week) = '' (x_attr r ''x2''),
             PrintAttr ''  Maximum Profit (in thousands of dollars) = '' (objVal r)] []
      else run [Print ''No optimal solution found.''] [])"

text \<open>
  \<^verbatim>\<open>
  if model.status == GRB.OPTIMAL:
      print("Optimal solution found:")
      print(f"  x1 (Treatment intensity 1) = {x1.x}")
      print(f"  x2 (Treatment intensity 2) = {x2.x}")
      print(f"  y1 (Placement decision 1) = {y1.x}")
      print(f"  y2 (Placement decision 2) = {y2.x}")
      print(f"  Minimum impact (Z) = {model.objVal}")
  else:
      print("No optimal solution found.")
  \<close>
\<close>

definition report_radiation :: "result \<Rightarrow> line list \<times> error option" where
  "report_radiation r =
     (if status r = OPTIMAL then
        run [Print ''Optimal solution found:'',
             PrintAttr ''  x1 (Treatment intensity 1) = '' (x_attr r ''x1''),
             PrintAttr ''  x2 (Treatment intensity 2) = '' (x_attr r ''x2''),
             PrintAttr ''  y1 (Placement decision 1) = '' (x_attr r ''y1''),
             PrintAttr ''  y2 (Placement decision 2) = '' (x_attr r ''y2''),
             PrintAttr ''  Minimum impact (Z) = '' (objVal r)] []
      else run [Print ''No optimal solution found.''] [])"

text \<open>A line that shows a number.\<close>

fun shows_value :: "line \<Rightarrow> bool" where
  "shows_value (Text s) = False"
| "shows_value (Valued s v) = True"

section \<open>Feasible regions of the two models\<close>

lemma feasible_wyndor_iff:
  "feasible wyndor a \<longleftrightarrow>
     0 \<le> a ''x1'' \<and> 0 \<le> a ''x2'' \<and> a ''x1'' \<le> 4 \<and> 2 * a ''x2'' \<le> 12 \<and>
     3 * a ''x1'' + 2 * a ''x2'' \<le> 18"
  by (auto simp add: feasible_def wyndor_def continuous_var_def in_domain_def
      satisfies_def holds_def)

lemma feasible_radiation_iff:
  "feasible radiation a \<longleftrightarrow>
     0 \<le> a ''x1'' \<and> 0 \<le> a ''x2'' \<and>
     (a ''y1'' = 0 \<or> a ''y1'' = 1) \<and> (a ''y2'' = 0 \<or> a ''y2'' = 1) \<and>
     0.3 * a ''x1'' + 0.1 * a ''x2'' \<le> 2.7 \<and>
     0.5 * a ''x1'' + 0.5 * a ''x2'' = 6 \<and>
     0.6 * a ''x1'' + 0.4 * a ''x2'' \<ge> 6 \<and>
     a ''x1'' \<le> 10 * a ''y1'' \<and> a ''x2'' \<le> 10 * a ''y2''"
  by (auto simp add: feasible_def radiation_def continuous_var_def binary_var_def
      in_domain_def satisfies_def holds_def M_def)

lemma feasible_radiation_unlinked_iff:
  "feasible radiation_unlinked a \<longleftrightarrow>
     0 \<le> a ''x1'' \<and> 0 \<le> a ''x2'' \<and>
     0.3 * a ''x1'' + 0.1 * a ''x2'' \<le> 2.7 \<and>
     0.5 * a ''x1'' + 0.5 * a ''x2'' = 6 \<and>
     0.6 * a ''x1'' + 0.4 * a ''x2'' \<ge> 6"
  by (auto simp add: feasible_def radiation_unlinked_def radiation_def continuous_var_def
      binary_var_def in_domain_def satisfies_def holds_def is_linking_def)

lemma objective_wyndor:
  "objective_value wyndor a = 3 * a ''x1'' + 5 * a ''x2''"
  by (simp add: objective_value_def wyndor_def)

lemma objective_radiation:
  "objective_value radiation a = 0.4 * a ''x1'' + 0.5 * a ''x2''"
  by (simp add: objective_value_def radiation_def)

text \<open>No feasible production plan earns more than 36.\<close>

lemma wyndor_upper_bound:
  assumes "feasible wyndor a"
  shows "objective_value wyndor a \<le> 36"
  using assms unfolding feasible_wyndor_iff objective_wyndor by linarith

text \<open>A plan that earns 36 uses plant 2 and plant 3 to capacity.\<close>

lemma wyndor_argmax:
  assumes "feasible wyndor a" and "objective_value wyndor a = 36"
  shows "a ''x1'' = 2 \<and> a ''x2'' = 6"
  using assms unfolding feasible_wyndor_iff objective_wyndor by linarith

text \<open>In the radiation problem the equation leaves one degree of freedom, and the two
  inequalities bound it.\<close>

lemma radiation_range:
  assumes "feasible radiation_unlinked a"
  shows "6 \<le> a ''x1'' \<and> a ''x1'' \<le> 7.5 \<and> a ''x2'' = 12 - a ''x1''"
  using assms unfolding feasible_radiation_unlinked_iff by linarith

lemma radiation_drop_links:
  assumes "feasible radiation a"
  shows "feasible radiation_unlinked a"
  using assms unfolding feasible_radiation_iff feasible_radiation_unlinked_iff by simp

text \<open>The decimal \<open>5.25\<close> is read as a fraction over a power of ten; linear arithmetic
  wants it as a plain fraction.\<close>

lemma decimal_5_25: "(5.25::real) = 21 / 4"
  by simp

lemma radiation_lower_bound:
  assumes "feasible radiation a"
  shows "5.25 \<le> objective_value radiation a"
  using radiation_range [OF radiation_drop_links [OF assms]]
  unfolding objective_radiation decimal_5_25 by linarith

lemma radiation_binaries:
  assumes "feasible radiation a"
  shows "a ''y1'' = 1 \<and> a ''y2'' = 1"
proof -
  have r: "6 \<le> a ''x1'' \<and> a ''x1'' \<le> 7.5 \<and> a ''x2'' = 12 - a ''x1''"
    by (rule radiation_range [OF radiation_drop_links [OF assms]])
  have "a ''y1'' \<noteq> 0" and "a ''y2'' \<noteq> 0"
    using assms r unfolding feasible_radiation_iff by auto
  then show ?thesis
    using assms unfolding feasible_radiation_iff by blast
qed

lemma radiation_argmin:
  assumes "feasible radiation a" and "objective_value radiation a = 5.25"
  shows "a ''x1'' = 7.5 \<and> a ''x2'' = 4.5 \<and> a ''y1'' = 1 \<and> a ''y2'' = 1"
proof -
  have r: "6 \<le> a ''x1'' \<and> a ''x1'' \<le> 7.5 \<and> a ''x2'' = 12 - a ''x1''"
    by (rule radiation_range [OF radiation_drop_links [OF assms(1)]])
  have "a ''x1'' = 7.5 \<and> a ''x2'' = 4.5"
    using r assms(2) unfolding objective_radiation decimal_5_25 by linarith
  with radiation_binaries [OF assms(1)] show ?thesis by simp
qed


section \<open>Right answers for the two models\<close>

text \<open>An optimal answer is fixed by its domain and the values of its assignment.\<close>

lemma x_attr_eqI:
  assumes d: "dom (x_attr r) = dom f"
    and v: "\<And>n w. f n = Some w \<Longrightarrow> assignment_of r n = w"
  shows "x_attr r = f"
proof (rule ext)
  fix n
  show "x_attr r n = f n"
  proof (cases "f n")
    case None
    then have "n \<notin> dom (x_attr r)" using d by auto
    with None show ?thesis by auto
  next
    case (Some w)
    then have "n \<in> dom (x_attr r)" using d by auto
    then obtain u where u: "x_attr r n = Some u" by auto
    then have "assignment_of r n = u" by (simp add: assignment_of_def)
    with v [OF Some] u Some show ?thesis by simp
  qed
qed

subsection \<open>Wyndor Glass Co.\<close>

lemma assignment_of_wyndor_result:
  "assignment_of wyndor_result =
     (\<lambda>n. if n = ''x1'' then 2 else if n = ''x2'' then 6 else 0)"
  by (auto simp: assignment_of_def wyndor_result_def fun_eq_iff)

lemma feasible_wyndor_result: "feasible wyndor (assignment_of wyndor_result)"
  by (simp add: feasible_wyndor_iff assignment_of_wyndor_result)

lemma objective_wyndor_result:
  "objective_value wyndor (assignment_of wyndor_result) = 36"
  by (simp add: objective_wyndor assignment_of_wyndor_result)

lemma optimal_wyndor_result: "optimal wyndor (assignment_of wyndor_result)"
  unfolding optimal_def
proof (intro conjI allI impI)
  show "feasible wyndor (assignment_of wyndor_result)"
    by (rule feasible_wyndor_result)
next
  fix b
  assume "feasible wyndor b"
  then have "objective_value wyndor b \<le> 36"
    by (rule wyndor_upper_bound)
  then show "no_worse (modelSense wyndor)
      (objective_value wyndor (assignment_of wyndor_result)) (objective_value wyndor b)"
    unfolding objective_wyndor_result by (simp add: no_worse_def wyndor_def)
qed

lemma solves_wyndor_result: "solves wyndor wyndor_result"
proof -
  have "status wyndor_result = OPTIMAL"
    by (simp add: wyndor_result_def)
  moreover have "dom (x_attr wyndor_result) = set (map vname (vars wyndor))"
    by (auto simp: wyndor_result_def wyndor_def continuous_var_def)
  moreover have
    "objVal wyndor_result = Some (objective_value wyndor (assignment_of wyndor_result))"
    unfolding objective_wyndor_result by (simp add: wyndor_result_def)
  ultimately show ?thesis
    using optimal_wyndor_result by (simp add: solves_def)
qed

lemma optimal_wyndor_values:
  assumes "optimal wyndor a"
  shows "a ''x1'' = 2 \<and> a ''x2'' = 6 \<and> objective_value wyndor a = 36"
proof -
  have f: "feasible wyndor a"
    using assms by (simp add: optimal_def)
  have "no_worse (modelSense wyndor) (objective_value wyndor a)
          (objective_value wyndor (assignment_of wyndor_result))"
    using assms feasible_wyndor_result by (simp add: optimal_def)
  then have "36 \<le> objective_value wyndor a"
    unfolding objective_wyndor_result by (simp add: no_worse_def wyndor_def)
  with wyndor_upper_bound [OF f] have v: "objective_value wyndor a = 36"
    by simp
  with wyndor_argmax [OF f v] show ?thesis by simp
qed

lemma wyndor_not_unbounded: "\<not> unbounded wyndor"
proof
  assume "unbounded wyndor"
  then obtain b where "feasible wyndor b"
    and "\<not> no_worse (modelSense wyndor) 36 (objective_value wyndor b)"
    unfolding unbounded_def by blast
  then show False
    using wyndor_upper_bound [of b] by (simp add: no_worse_def wyndor_def)
qed

subsection \<open>Radiation therapy\<close>

lemma assignment_of_radiation_result:
  "assignment_of radiation_result =
     (\<lambda>n. if n = ''x1'' then 7.5 else if n = ''x2'' then 4.5
          else if n = ''y1'' then 1 else if n = ''y2'' then 1 else 0)"
  by (auto simp: assignment_of_def radiation_result_def fun_eq_iff)

lemma feasible_radiation_result: "feasible radiation (assignment_of radiation_result)"
  by (simp add: feasible_radiation_iff assignment_of_radiation_result)

lemma objective_radiation_result:
  "objective_value radiation (assignment_of radiation_result) = 5.25"
  by (simp add: objective_radiation assignment_of_radiation_result)

lemma optimal_radiation_result: "optimal radiation (assignment_of radiation_result)"
  unfolding optimal_def
proof (intro conjI allI impI)
  show "feasible radiation (assignment_of radiation_result)"
    by (rule feasible_radiation_result)
next
  fix b
  assume "feasible radiation b"
  then have "5.25 \<le> objective_value radiation b"
    by (rule radiation_lower_bound)
  then show "no_worse (modelSense radiation)
      (objective_value radiation (assignment_of radiation_result))
      (objective_value radiation b)"
    unfolding objective_radiation_result by (simp add: no_worse_def radiation_def)
qed

lemma solves_radiation_result: "solves radiation radiation_result"
proof -
  have "status radiation_result = OPTIMAL"
    by (simp add: radiation_result_def)
  moreover have "dom (x_attr radiation_result) = set (map vname (vars radiation))"
    by (auto simp: radiation_result_def radiation_def continuous_var_def binary_var_def)
  moreover have "objVal radiation_result =
      Some (objective_value radiation (assignment_of radiation_result))"
    unfolding objective_radiation_result by (simp add: radiation_result_def)
  ultimately show ?thesis
    using optimal_radiation_result by (simp add: solves_def)
qed

lemma optimal_radiation_values:
  assumes "optimal radiation a"
  shows "a ''x1'' = 7.5 \<and> a ''x2'' = 4.5 \<and> a ''y1'' = 1 \<and> a ''y2'' = 1 \<and>
         objective_value radiation a = 5.25"
proof -
  have f: "feasible radiation a"
    using assms by (simp add: optimal_def)
  have "no_worse (modelSense radiation) (objective_value radiation a)
          (objective_value radiation (assignment_of radiation_result))"
    using assms feasible_radiation_result by (simp add: optimal_def)
  then have "objective_value radiation a \<le> 5.25"
    unfolding objective_radiation_result by (simp add: no_worse_def radiation_def)
  with radiation_lower_bound [OF f] have v: "objective_value radiation a = 5.25"
    by simp
  with radiation_argmin [OF f v] show ?thesis by simp
qed

lemma radiation_not_unbounded: "\<not> unbounded radiation"
proof
  assume "unbounded radiation"
  then obtain b where "feasible radiation b"
    and "\<not> no_worse (modelSense radiation) 5.25 (objective_value radiation b)"
    unfolding unbounded_def by blast
  then show False
    using radiation_lower_bound [of b] by (simp add: no_worse_def radiation_def)
qed

section \<open>Properties of the notebooks\<close>

text \<open>
  C1. For the Wyndor Glass problem (maximize \<open>3 x1 + 5 x2\<close> subject to \<open>x1 \<le> 4\<close>,
  \<open>2 x2 \<le> 12\<close>, \<open>3 x1 + 2 x2 \<le> 18\<close>, \<open>x1, x2 \<ge> 0\<close>), every right answer of a solver has
  status optimal, gives \<open>x1 = 2\<close> and \<open>x2 = 6\<close> and nothing else, and has objective
  value 36.
\<close>

theorem wyndor_solve:
  assumes "solves wyndor r"
  shows "status r = OPTIMAL \<and> x_attr r = [''x1'' \<mapsto> 2, ''x2'' \<mapsto> 6] \<and> objVal r = Some 36"
proof (cases "status r")
  case OPTIMAL
  with assms have d: "dom (x_attr r) = {''x1'', ''x2''}"
    and o: "optimal wyndor (assignment_of r)"
    and v: "objVal r = Some (objective_value wyndor (assignment_of r))"
    by (auto simp: solves_def wyndor_def continuous_var_def)
  note a = optimal_wyndor_values [OF o]
  have "x_attr r = [''x1'' \<mapsto> 2, ''x2'' \<mapsto> 6]"
  proof (rule x_attr_eqI)
    show "dom (x_attr r) = dom [''x1'' \<mapsto> 2::real, ''x2'' \<mapsto> 6]"
      using d by auto
  next
    fix n w
    assume "[''x1'' \<mapsto> 2::real, ''x2'' \<mapsto> 6] n = Some w"
    then show "assignment_of r n = w"
      using a by (auto split: if_splits)
  qed
  with OPTIMAL v a show ?thesis by simp
next
  case INFEASIBLE
  with assms have "\<not> feasible wyndor (assignment_of wyndor_result)"
    by (simp add: solves_def)
  with feasible_wyndor_result show ?thesis by simp
next
  case UNBOUNDED
  with assms have "unbounded wyndor"
    by (simp add: solves_def)
  with wyndor_not_unbounded show ?thesis by simp
next
  case ERROR
  with assms show ?thesis by (simp add: solves_def)
qed

theorem wyndor_solve_witness:
  "solves wyndor wyndor_result \<and> status wyndor_result = OPTIMAL \<and>
   x_attr wyndor_result = [''x1'' \<mapsto> 2, ''x2'' \<mapsto> 6] \<and>
   objVal wyndor_result = Some 36"
  using wyndor_solve [OF solves_wyndor_result] solves_wyndor_result by simp

text \<open>
  C2. For the Radiation Therapy problem (minimize \<open>0.4 x1 + 0.5 x2\<close> subject to
  \<open>0.3 x1 + 0.1 x2 \<le> 2.7\<close>, \<open>0.5 x1 + 0.5 x2 = 6\<close>, \<open>0.6 x1 + 0.4 x2 \<ge> 6\<close>,
  \<open>x1 \<le> 10 y1\<close>, \<open>x2 \<le> 10 y2\<close>, \<open>x1, x2 \<ge> 0\<close>, \<open>y1\<close> and \<open>y2\<close> binary), every right
  answer of a solver has status optimal, gives \<open>x1 = 7.5\<close>, \<open>x2 = 4.5\<close>, \<open>y1 = 1\<close>,
  \<open>y2 = 1\<close> and nothing else, and has objective value 5.25.
\<close>

theorem radiation_solve:
  assumes "solves radiation r"
  shows "status r = OPTIMAL \<and>
         x_attr r = [''x1'' \<mapsto> 7.5, ''x2'' \<mapsto> 4.5, ''y1'' \<mapsto> 1, ''y2'' \<mapsto> 1] \<and>
         objVal r = Some 5.25"
proof (cases "status r")
  case OPTIMAL
  with assms have d: "dom (x_attr r) = {''x1'', ''x2'', ''y1'', ''y2''}"
    and o: "optimal radiation (assignment_of r)"
    and v: "objVal r = Some (objective_value radiation (assignment_of r))"
    by (auto simp: solves_def radiation_def continuous_var_def binary_var_def)
  note a = optimal_radiation_values [OF o]
  have "x_attr r = [''x1'' \<mapsto> 7.5, ''x2'' \<mapsto> 4.5, ''y1'' \<mapsto> 1, ''y2'' \<mapsto> 1]"
  proof (rule x_attr_eqI)
    show "dom (x_attr r) =
        dom [''x1'' \<mapsto> 7.5::real, ''x2'' \<mapsto> 4.5, ''y1'' \<mapsto> 1, ''y2'' \<mapsto> 1]"
      using d by auto
  next
    fix n w
    assume "[''x1'' \<mapsto> 7.5::real, ''x2'' \<mapsto> 4.5, ''y1'' \<mapsto> 1, ''y2'' \<mapsto> 1] n = Some w"
    then show "assignment_of r n = w"
      using a by (auto split: if_splits)
  qed
  with OPTIMAL v a show ?thesis by simp
next
  case INFEASIBLE
  with assms have "\<not> feasible radiation (assignment_of radiation_result)"
    by (simp add: solves_def)
  with feasible_radiation_result show ?thesis by simp
next
  case UNBOUNDED
  with assms have "unbounded radiation"
    by (simp add: solves_def)
  with radiation_not_unbounded show ?thesis by simp
next
  case ERROR
  with assms show ?thesis by (simp add: solves_def)
qed

theorem radiation_solve_witness:
  "solves radiation radiation_result \<and> status radiation_result = OPTIMAL \<and>
   x_attr radiation_result = [''x1'' \<mapsto> 7.5, ''x2'' \<mapsto> 4.5, ''y1'' \<mapsto> 1, ''y2'' \<mapsto> 1] \<and>
   objVal radiation_result = Some 5.25"
  using radiation_solve [OF solves_radiation_result] solves_radiation_result by simp

text \<open>
  C3. In the radiation model the constant \<open>M = 10\<close> is at least the largest value \<open>x1\<close> or
  \<open>x2\<close> takes in a feasible solution of the problem without the two linking constraints:
  every point with \<open>x1, x2 \<ge> 0\<close>, \<open>0.3 x1 + 0.1 x2 \<le> 2.7\<close>, \<open>0.5 x1 + 0.5 x2 = 6\<close> and
  \<open>0.6 x1 + 0.4 x2 \<ge> 6\<close> has \<open>x1 \<le> M\<close> and \<open>x2 \<le> M\<close>, and it stays feasible in the full
  model once both binaries are set to 1. The linking constraints exclude no such point.
\<close>

theorem big_M_covers_feasible_range:
  assumes "feasible radiation_unlinked a"
  shows "a ''x1'' \<le> M \<and> a ''x2'' \<le> M \<and> feasible radiation (a(''y1'' := 1, ''y2'' := 1))"
proof -
  have r: "6 \<le> a ''x1'' \<and> a ''x1'' \<le> 7.5 \<and> a ''x2'' = 12 - a ''x1''"
    using assms by (rule radiation_range)
  then have b: "a ''x1'' \<le> 10 \<and> a ''x2'' \<le> 10"
    by linarith
  have "feasible radiation (a(''y1'' := 1, ''y2'' := 1))"
    using assms b unfolding feasible_radiation_iff feasible_radiation_unlinked_iff by simp
  with b show ?thesis by (simp add: M_def)
qed

theorem big_M_covers_feasible_range_witness:
  "feasible radiation_unlinked ((\<lambda>n. 0)(''x1'' := 6, ''x2'' := 6)) \<and>
   ((\<lambda>n. 0)(''x1'' := 6, ''x2'' := 6)) ''x1'' \<le> M \<and>
   ((\<lambda>n. 0)(''x1'' := 6, ''x2'' := 6)) ''x2'' \<le> M \<and>
   feasible radiation ((\<lambda>n. 0)(''x1'' := 6, ''x2'' := 6, ''y1'' := 1, ''y2'' := 1))"
proof -
  have f: "feasible radiation_unlinked ((\<lambda>n. 0)(''x1'' := 6, ''x2'' := 6))"
    by (simp add: feasible_radiation_unlinked_iff)
  show ?thesis
    using f big_M_covers_feasible_range [OF f] by simp
qed

text \<open>
  C9. In every feasible solution of the radiation model as the notebook builds it, both
  binary variables are 1: the constraints give \<open>6 \<le> x1 \<le> 7.5\<close> and \<open>x2 = 12 - x1 > 0\<close>,
  so neither linking constraint allows its binary to be 0.
\<close>

theorem radiation_binaries_forced:
  assumes "feasible radiation a"
  shows "a ''y1'' = 1 \<and> a ''y2'' = 1 \<and>
         6 \<le> a ''x1'' \<and> a ''x1'' \<le> 7.5 \<and> a ''x2'' = 12 - a ''x1'' \<and> 0 < a ''x2''"
proof -
  have r: "6 \<le> a ''x1'' \<and> a ''x1'' \<le> 7.5 \<and> a ''x2'' = 12 - a ''x1''"
    by (rule radiation_range [OF radiation_drop_links [OF assms]])
  then have "0 < a ''x2''"
    by linarith
  with r radiation_binaries [OF assms] show ?thesis by simp
qed

theorem radiation_binaries_forced_witness:
  "feasible radiation ((\<lambda>n. 0)(''x1'' := 6, ''x2'' := 6, ''y1'' := 1, ''y2'' := 1)) \<and>
   ((\<lambda>n. 0)(''x1'' := 6, ''x2'' := 6, ''y1'' := 1, ''y2'' := 1)) ''y1'' = (1::real) \<and>
   ((\<lambda>n. 0)(''x1'' := 6, ''x2'' := 6, ''y1'' := 1, ''y2'' := 1)) ''y2'' = (1::real)"
proof -
  have f: "feasible radiation ((\<lambda>n. 0)(''x1'' := 6, ''x2'' := 6, ''y1'' := 1, ''y2'' := 1))"
    by (simp add: feasible_radiation_iff)
  show ?thesis
    using f radiation_binaries_forced [OF f] by simp
qed

text \<open>
  C10. Each of the two problems has one optimal solution. A feasible point of the Wyndor
  problem with objective value 36 is \<open>(x1, x2) = (2, 6)\<close>; a feasible point of the
  radiation problem with objective value 5.25 is \<open>(x1, x2, y1, y2) = (7.5, 4.5, 1, 1)\<close>.
  Hence two optimal points of either model agree on every variable the model declares:
  the values a notebook prints are fixed by its model.
\<close>

theorem optimum_unique:
  "(feasible wyndor a \<and> objective_value wyndor a = 36 \<longrightarrow>
      a ''x1'' = 2 \<and> a ''x2'' = 6) \<and>
   (feasible radiation b \<and> objective_value radiation b = 5.25 \<longrightarrow>
      b ''x1'' = 7.5 \<and> b ''x2'' = 4.5 \<and> b ''y1'' = 1 \<and> b ''y2'' = 1) \<and>
   (optimal wyndor a \<and> optimal wyndor a' \<longrightarrow>
      (\<forall>v \<in> set (vars wyndor). a (vname v) = a' (vname v))) \<and>
   (optimal radiation b \<and> optimal radiation b' \<longrightarrow>
      (\<forall>v \<in> set (vars radiation). b (vname v) = b' (vname v)))"
proof -
  have w: "a ''x1'' = 2 \<and> a ''x2'' = 6"
    if "feasible wyndor a \<and> objective_value wyndor a = 36"
    using that wyndor_argmax by blast
  have r: "b ''x1'' = 7.5 \<and> b ''x2'' = 4.5 \<and> b ''y1'' = 1 \<and> b ''y2'' = 1"
    if "feasible radiation b \<and> objective_value radiation b = 5.25"
    using that radiation_argmin by blast
  have ww: "\<forall>v \<in> set (vars wyndor). a (vname v) = a' (vname v)"
    if "optimal wyndor a \<and> optimal wyndor a'"
  proof -
    have "a ''x1'' = a' ''x1'' \<and> a ''x2'' = a' ''x2''"
      using that optimal_wyndor_values [of a] optimal_wyndor_values [of a'] by simp
    then show ?thesis
      by (simp add: wyndor_def continuous_var_def)
  qed
  have rr: "\<forall>v \<in> set (vars radiation). b (vname v) = b' (vname v)"
    if "optimal radiation b \<and> optimal radiation b'"
  proof -
    have "b ''x1'' = b' ''x1'' \<and> b ''x2'' = b' ''x2'' \<and>
          b ''y1'' = b' ''y1'' \<and> b ''y2'' = b' ''y2''"
      using that optimal_radiation_values [of b] optimal_radiation_values [of b'] by simp
    then show ?thesis
      by (simp add: radiation_def continuous_var_def binary_var_def)
  qed
  from w r ww rr show ?thesis by blast
qed

theorem optimum_unique_witness:
  "feasible wyndor (assignment_of wyndor_result) \<and>
   objective_value wyndor (assignment_of wyndor_result) = 36 \<and>
   assignment_of wyndor_result ''x1'' = 2 \<and> assignment_of wyndor_result ''x2'' = 6 \<and>
   feasible radiation (assignment_of radiation_result) \<and>
   objective_value radiation (assignment_of radiation_result) = 5.25 \<and>
   assignment_of radiation_result ''x1'' = 7.5 \<and>
   assignment_of radiation_result ''x2'' = 4.5 \<and>
   assignment_of radiation_result ''y1'' = 1 \<and>
   assignment_of radiation_result ''y2'' = 1 \<and>
   optimal wyndor (assignment_of wyndor_result) \<and>
   optimal radiation (assignment_of radiation_result)"
  using optimum_unique [of "assignment_of wyndor_result" "assignment_of radiation_result"
      "assignment_of wyndor_result" "assignment_of radiation_result"]
    feasible_wyndor_result objective_wyndor_result feasible_radiation_result
    objective_radiation_result optimal_wyndor_result optimal_radiation_result
  by simp

text \<open>
  C6. The reporting cell of either notebook prints the variables with their values and
  the objective value when the status is optimal (and the answer carries those values):
  no error. For every other status, infeasible and unbounded among them, it prints the
  one line "No optimal solution found.", no value, and raises nothing. So a line with a
  value is printed only when the status is optimal.
\<close>

theorem report_outcomes:
  "(status r \<noteq> OPTIMAL \<longrightarrow>
      report_wyndor r = ([Text ''No optimal solution found.''], None) \<and>
      report_radiation r = ([Text ''No optimal solution found.''], None)) \<and>
   (status r = OPTIMAL \<and> x_attr r ''x1'' = Some v1 \<and> x_attr r ''x2'' = Some v2 \<and>
    objVal r = Some z \<longrightarrow>
      report_wyndor r =
        ([Text ''Optimal solution found:'',
          Valued ''  x1 (Product 1 batches per week) = '' v1,
          Valued ''  x2 (Product 2 batches per week) = '' v2,
          Valued ''  Maximum Profit (in thousands of dollars) = '' z], None)) \<and>
   (status r = OPTIMAL \<and> x_attr r ''x1'' = Some v1 \<and> x_attr r ''x2'' = Some v2 \<and>
    x_attr r ''y1'' = Some w1 \<and> x_attr r ''y2'' = Some w2 \<and> objVal r = Some z \<longrightarrow>
      report_radiation r =
        ([Text ''Optimal solution found:'',
          Valued ''  x1 (Treatment intensity 1) = '' v1,
          Valued ''  x2 (Treatment intensity 2) = '' v2,
          Valued ''  y1 (Placement decision 1) = '' w1,
          Valued ''  y2 (Placement decision 2) = '' w2,
          Valued ''  Minimum impact (Z) = '' z], None)) \<and>
   (list_ex shows_value (fst (report_wyndor r)) \<longrightarrow> status r = OPTIMAL) \<and>
   (list_ex shows_value (fst (report_radiation r)) \<longrightarrow> status r = OPTIMAL)"
  by (simp add: report_wyndor_def report_radiation_def)

theorem report_outcomes_witness:
  "status wyndor_result = OPTIMAL \<and>
   report_wyndor wyndor_result =
     ([Text ''Optimal solution found:'',
       Valued ''  x1 (Product 1 batches per week) = '' 2,
       Valued ''  x2 (Product 2 batches per week) = '' 6,
       Valued ''  Maximum Profit (in thousands of dollars) = '' 36], None) \<and>
   list_ex shows_value (fst (report_wyndor wyndor_result)) \<and>
   status radiation_result = OPTIMAL \<and>
   report_radiation radiation_result =
     ([Text ''Optimal solution found:'',
       Valued ''  x1 (Treatment intensity 1) = '' 7.5,
       Valued ''  x2 (Treatment intensity 2) = '' 4.5,
       Valued ''  y1 (Placement decision 1) = '' 1,
       Valued ''  y2 (Placement decision 2) = '' 1,
       Valued ''  Minimum impact (Z) = '' 5.25], None) \<and>
   list_ex shows_value (fst (report_radiation radiation_result)) \<and>
   status \<lparr>status = INFEASIBLE, x_attr = Map.empty, objVal = None\<rparr> \<noteq> OPTIMAL \<and>
   report_wyndor \<lparr>status = INFEASIBLE, x_attr = Map.empty, objVal = None\<rparr> =
     ([Text ''No optimal solution found.''], None) \<and>
   report_radiation \<lparr>status = INFEASIBLE, x_attr = Map.empty, objVal = None\<rparr> =
     ([Text ''No optimal solution found.''], None)"
proof -
  have w: "status wyndor_result = OPTIMAL \<and> x_attr wyndor_result ''x1'' = Some 2 \<and>
      x_attr wyndor_result ''x2'' = Some 6 \<and> objVal wyndor_result = Some 36"
    by (simp add: wyndor_result_def)
  have r: "status radiation_result = OPTIMAL \<and>
      x_attr radiation_result ''x1'' = Some 7.5 \<and>
      x_attr radiation_result ''x2'' = Some 4.5 \<and>
      x_attr radiation_result ''y1'' = Some 1 \<and>
      x_attr radiation_result ''y2'' = Some 1 \<and> objVal radiation_result = Some 5.25"
    by (simp add: radiation_result_def)
  have i: "status \<lparr>status = INFEASIBLE, x_attr = Map.empty, objVal = None\<rparr> \<noteq> OPTIMAL"
    by simp
  note a = report_outcomes [where r = wyndor_result and ?v1.0 = 2 and ?v2.0 = 6 and z = 36]
  note b = report_outcomes [where r = radiation_result and ?v1.0 = "7.5" and ?v2.0 = "4.5"
      and z = "5.25" and ?w1.0 = 1 and ?w2.0 = 1]
  note c =
    report_outcomes [where r = "\<lparr>status = INFEASIBLE, x_attr = Map.empty, objVal = None\<rparr>"]
  have "report_wyndor wyndor_result =
     ([Text ''Optimal solution found:'',
       Valued ''  x1 (Product 1 batches per week) = '' 2,
       Valued ''  x2 (Product 2 batches per week) = '' 6,
       Valued ''  Maximum Profit (in thousands of dollars) = '' 36], None)"
    using a w by blast
  moreover have "report_radiation radiation_result =
     ([Text ''Optimal solution found:'',
       Valued ''  x1 (Treatment intensity 1) = '' 7.5,
       Valued ''  x2 (Treatment intensity 2) = '' 4.5,
       Valued ''  y1 (Placement decision 1) = '' 1,
       Valued ''  y2 (Placement decision 2) = '' 1,
       Valued ''  Minimum impact (Z) = '' 5.25], None)"
    using b r by blast
  moreover have
    "report_wyndor \<lparr>status = INFEASIBLE, x_attr = Map.empty, objVal = None\<rparr> =
       ([Text ''No optimal solution found.''], None) \<and>
     report_radiation \<lparr>status = INFEASIBLE, x_attr = Map.empty, objVal = None\<rparr> =
       ([Text ''No optimal solution found.''], None)"
    using c i by blast
  ultimately show ?thesis
    using w r i by simp
qed

end
